theory Spec2Isabelle
  imports Main "HOL-Library.AList" "HOL-Library.Sublist"
begin

section \<open>The kernel websocket handler of jupyter\_server\<close>

text \<open>
  A shallow embedding of \<^verbatim>\<open>KernelWebsocketHandler\<close>
  (\<^verbatim>\<open>jupyter_server/services/kernels/websocket.py\<close>): admission (\<^verbatim>\<open>pre_get\<close>,
  \<^verbatim>\<open>get\<close>), sub-protocol selection, the relay lifecycle (\<^verbatim>\<open>open\<close>,
  \<^verbatim>\<open>on_close\<close>) and the rewrite of inbound execute requests (\<^verbatim>\<open>on_message\<close>).

  A Python \<^verbatim>\<open>str\<close> is a \<^typ>\<open>string\<close>, one \<^typ>\<open>char\<close> per code point. The handler
  itself only compares strings with ASCII literals and concatenates them, which is the
  same on any encoding of the text.
\<close>

subsection \<open>Python values and exceptions\<close>

text \<open>
  The objects \<^verbatim>\<open>json.loads\<close> returns: \<^verbatim>\<open>None\<close>, \<^verbatim>\<open>bool\<close>, \<^verbatim>\<open>int\<close>, \<^verbatim>\<open>float\<close>,
  \<^verbatim>\<open>str\<close>, \<^verbatim>\<open>list\<close> and \<^verbatim>\<open>dict\<close> with \<^verbatim>\<open>str\<close> keys. A dict is an association list
  in insertion order. The handler never computes with a float, it only prints it, so a
  float is carried as the text \<^verbatim>\<open>float.__repr__\<close> gives for it.
\<close>

datatype py_value =
    PyNone
  | PyBool bool
  | PyInt int
  | PyFloat string
  | PyStr string
  | PyList "py_value list"
  | PyDict "(string \<times> py_value) list"

datatype error =
    HTTPError nat
  | AttributeError
  | KeyError
  | TypeError
  | JSONDecodeError
  | ExternalError string

text \<open>A websocket frame as tornado hands it to \<^verbatim>\<open>on_message\<close>: \<^verbatim>\<open>str\<close> or \<^verbatim>\<open>bytes\<close>.\<close>

datatype frame = Text string | Binary "nat list"

abbreviation NL :: char where "NL \<equiv> CHR 0x0A"
abbreviation SQ :: char where "SQ \<equiv> CHR 0x27"
abbreviation DQ :: char where "DQ \<equiv> CHR 0x22"
abbreviation BSL :: char where "BSL \<equiv> CHR 0x5C"

definition bind_result :: "error + 'a \<Rightarrow> ('a \<Rightarrow> error + 'b) \<Rightarrow> error + 'b" where
  "bind_result r f = (case r of Inl e \<Rightarrow> Inl e | Inr x \<Rightarrow> f x)"

text \<open>\<^verbatim>\<open>d.get(k, default)\<close>: only a dict has the method.\<close>

definition py_get :: "py_value \<Rightarrow> string \<Rightarrow> py_value \<Rightarrow> error + py_value" where
  "py_get d k dflt =
     (case d of
        PyDict kvs \<Rightarrow> Inr (case map_of kvs k of None \<Rightarrow> dflt | Some v \<Rightarrow> v)
      | _ \<Rightarrow> Inl AttributeError)"

text \<open>\<^verbatim>\<open>d[k]\<close> with a \<^verbatim>\<open>str\<close> key: a missing key raises KeyError; a list or a str refuses
  the index and anything else is not subscriptable (TypeError).\<close>

definition py_getitem :: "py_value \<Rightarrow> string \<Rightarrow> error + py_value" where
  "py_getitem d k =
     (case d of
        PyDict kvs \<Rightarrow> (case map_of kvs k of None \<Rightarrow> Inl KeyError | Some v \<Rightarrow> Inr v)
      | _ \<Rightarrow> Inl TypeError)"

text \<open>\<^verbatim>\<open>d[k] = v\<close>: an existing key keeps its place, a new key goes last.\<close>

definition py_setitem :: "py_value \<Rightarrow> string \<Rightarrow> py_value \<Rightarrow> error + py_value" where
  "py_setitem d k v =
     (case d of
        PyDict kvs \<Rightarrow> Inr (PyDict (AList.update k v kvs))
      | _ \<Rightarrow> Inl TypeError)"

subsection \<open>String forms of Python values\<close>

text \<open>The digit of a value below 16, in lower case as \<^verbatim>\<open>%d\<close> and \<^verbatim>\<open>%x\<close> print it.\<close>

definition digit_char :: "nat \<Rightarrow> char" where
  "digit_char n = ''0123456789abcdef'' ! (n mod 16)"

fun str_nat :: "nat \<Rightarrow> string" where
  "str_nat n = (if n < 10 then [digit_char n] else str_nat (n div 10) @ [digit_char (n mod 10)])"

definition str_int :: "int \<Rightarrow> string" where
  "str_int i = (if i < 0 then CHR ''-'' # str_nat (nat (- i)) else str_nat (nat i))"

text \<open>
  \<^verbatim>\<open>repr\<close> of a \<^verbatim>\<open>str\<close> (CPython's \<^verbatim>\<open>unicode_repr\<close>, for code points below 256): double
  quotes only when the text has a single quote and no double quote; the quote and the
  backslash are escaped; tab, newline and carriage return get their letter; the other
  characters that are not printable are written \<^verbatim>\<open>\xhh\<close>.
\<close>

definition py_printable :: "char \<Rightarrow> bool" where
  "py_printable c =
     (let n = (of_char c :: nat)
      in 0x20 \<le> n \<and> n \<noteq> 0x7F \<and> \<not> (0x80 \<le> n \<and> n \<le> 0xA0) \<and> n \<noteq> 0xAD)"

definition repr_char :: "char \<Rightarrow> char \<Rightarrow> string" where
  "repr_char quote c =
     (if c = quote \<or> c = BSL then [BSL, c]
      else if c = CHR 0x09 then [BSL, CHR ''t'']
      else if c = NL then [BSL, CHR ''n'']
      else if c = CHR 0x0D then [BSL, CHR ''r'']
      else if py_printable c then [c]
      else [BSL, CHR ''x'', digit_char (of_char c div 16), digit_char (of_char c mod 16)])"

definition repr_str :: "string \<Rightarrow> string" where
  "repr_str s =
     (let quote = (if SQ \<in> set s \<and> DQ \<notin> set s then DQ else SQ)
      in [quote] @ concat (map (repr_char quote) s) @ [quote])"

text \<open>\<^verbatim>\<open>repr\<close> of a value, as \<^verbatim>\<open>str\<close> of a list or a dict prints its members.\<close>

fun py_repr :: "py_value \<Rightarrow> string"
  and py_repr_items :: "py_value list \<Rightarrow> string"
  and py_repr_pairs :: "(string \<times> py_value) list \<Rightarrow> string"
where
  "py_repr PyNone = ''None''"
| "py_repr (PyBool b) = (if b then ''True'' else ''False'')"
| "py_repr (PyInt i) = str_int i"
| "py_repr (PyFloat r) = r"
| "py_repr (PyStr s) = repr_str s"
| "py_repr (PyList xs) = ''['' @ py_repr_items xs @ '']''"
| "py_repr (PyDict kvs) = ''{'' @ py_repr_pairs kvs @ ''}''"
| "py_repr_items [] = []"
| "py_repr_items [x] = py_repr x"
| "py_repr_items (x # y # xs) = py_repr x @ '', '' @ py_repr_items (y # xs)"
| "py_repr_pairs [] = []"
| "py_repr_pairs [(k, v)] = repr_str k @ '': '' @ py_repr v"
| "py_repr_pairs ((k, v) # p # kvs) =
     repr_str k @ '': '' @ py_repr v @ '', '' @ py_repr_pairs (p # kvs)"

text \<open>What an f-string field \<^verbatim>\<open>{x}\<close> prints: \<^verbatim>\<open>format(x, "")\<close>, which is the text itself
  for a \<^verbatim>\<open>str\<close> and \<^verbatim>\<open>str(x)\<close>, here equal to \<^verbatim>\<open>repr(x)\<close>, for the other values.\<close>

definition py_format :: "py_value \<Rightarrow> string" where
  "py_format v = (case v of PyStr s \<Rightarrow> s | _ \<Rightarrow> py_repr v)"

text \<open>\<^verbatim>\<open>headers.get(name)\<close> is a \<^verbatim>\<open>str\<close>, or \<^verbatim>\<open>None\<close> when the header is absent.\<close>

definition py_of_header :: "string option \<Rightarrow> py_value" where
  "py_of_header h = (case h of None \<Rightarrow> PyNone | Some s \<Rightarrow> PyStr s)"

subsection \<open>The rewrite of inbound frames (\<^verbatim>\<open>on_message\<close>)\<close>

text \<open>
  \<^verbatim>\<open>json.loads\<close> and \<^verbatim>\<open>json.dumps\<close> belong to the Python standard library. The handler
  takes them as the parameters \<open>loads\<close> (\<open>None\<close> when it raises) and \<open>dumps\<close>; the
  theorems about the handler hold for every such pair. A model of the two functions
  themselves is given further down and used where a text has to be parsed or printed.

  \<open>on_message_try\<close> is the body of the \<^verbatim>\<open>try\<close> block: \<open>Inl\<close> is an exception raised
  in it, \<open>Inr\<close> the new value of \<^verbatim>\<open>ws_message\<close>. The assignment evaluates its right-hand
  side first, then the target \<^verbatim>\<open>message['content']\<close>, and stores into that dict, which
  is the one held by \<^verbatim>\<open>message\<close>.
\<close>

text \<open>The first two pieces of the f-string: the statements before the original code,
  with the value of the \<^verbatim>\<open>X-Forwarded-Access-Token\<close> header formatted between single quotes.\<close>

definition environ_assignment :: "string option \<Rightarrow> string" where
  "environ_assignment token =
     ''import os'' @ [NL] @ ''os.environ['' @ [SQ] @ ''FORWARDED_ACCESS_TOKEN'' @ [SQ] @ ''] = ''
       @ [SQ] @ py_format (py_of_header token) @ [SQ] @ [NL]"

definition on_message_try ::
  "(string \<Rightarrow> py_value option) \<Rightarrow> (py_value \<Rightarrow> string) \<Rightarrow> string option \<Rightarrow> string
     \<Rightarrow> error + string" where
  "on_message_try loads dumps token ws_message =
     (case loads ws_message of
        None \<Rightarrow> Inl JSONDecodeError
      | Some message \<Rightarrow>
          bind_result (py_get message ''header'' (PyDict [])) (\<lambda>header.
          bind_result (py_get header ''msg_type'' PyNone) (\<lambda>msg_type.
          let is_execute_request = (msg_type = PyStr ''execute_request'') in
          bind_result
            (if is_execute_request
             then bind_result (py_get message ''content'' (PyDict [])) (\<lambda>content.
                  bind_result (py_get content ''code'' PyNone) (\<lambda>code.
                  Inr (code \<noteq> PyNone)))
             else Inr False) (\<lambda>rewrite.
          bind_result
            (if rewrite
             then bind_result (py_getitem message ''content'') (\<lambda>content.
                  bind_result (py_getitem content ''code'') (\<lambda>code.
                  let new_code = environ_assignment token @ py_format code in
                  bind_result (py_getitem message ''content'') (\<lambda>target.
                  bind_result (py_setitem target ''code'' (PyStr new_code)) (\<lambda>target'.
                  py_setitem message ''content'' target'))))
             else Inr message) (\<lambda>message'.
          Inr (dumps message'))))))"

text \<open>Lines 80 to 90: a \<^verbatim>\<open>str\<close> frame goes through the \<^verbatim>\<open>try\<close> block, and any exception
  leaves \<^verbatim>\<open>ws_message\<close> as it was; a \<^verbatim>\<open>bytes\<close> frame is not looked at.\<close>

definition on_message_rewrite ::
  "(string \<Rightarrow> py_value option) \<Rightarrow> (py_value \<Rightarrow> string) \<Rightarrow> string option \<Rightarrow> frame \<Rightarrow> frame" where
  "on_message_rewrite loads dumps token ws_message =
     (case ws_message of
        Text s \<Rightarrow>
          (case on_message_try loads dumps token s of
             Inl e \<Rightarrow> Text s
           | Inr s' \<Rightarrow> Text s')
      | Binary b \<Rightarrow> Binary b)"

subsection \<open>The handler and its collaborators\<close>

text \<open>
  The request as tornado presents it: the resolved identity, the query arguments (decoded
  and stripped, each name with its list of values) and the headers under their normalised
  names.
\<close>

record 'u request =
  current_user :: "'u option"
  arguments :: "(string \<times> string list) list"
  headers :: "(string \<times> string) list"

text \<open>The relay handle (the object of \<^verbatim>\<open>kernel_websocket_connection_class\<close>): the fields
  the handler reads or writes, and whether it has the legacy \<^verbatim>\<open>prepare\<close> method.\<close>

record 'k relay =
  parent :: 'k
  kernel_ws_protocol :: "string option"
  session :: string
  has_prepare :: bool

text \<open>Every call the handler makes on a collaborator is recorded, in order.\<close>

datatype effect =
    LogWarning string
  | LogInfo string
  | GetKernel string
  | Construct
  | Prepare
  | SuperGet string
  | Connect
  | HandleIncoming frame
  | Disconnect

record ('u, 'k) handler =
  request :: "'u request"
  kernel_id :: string
  connection :: "'k relay option"
  effects :: "effect list"

text \<open>The collaborators that are not part of the handler: the authorizer, the kernel
  manager, the constructor of the relay handle and the outcome of its \<^verbatim>\<open>prepare\<close>.\<close>

record ('u, 'k) env =
  is_authorized :: "'u \<Rightarrow> string \<Rightarrow> string \<Rightarrow> bool"
  get_kernel :: "string \<Rightarrow> error + 'k"
  connection_class :: "'k \<Rightarrow> 'k relay"
  prepare_result :: "error option"

definition emit :: "effect \<Rightarrow> ('u, 'k) handler \<Rightarrow> ('u, 'k) handler" where
  "emit e h = h\<lparr>effects := effects h @ [e]\<rparr>"

text \<open>\<^verbatim>\<open>get_argument(name, default)\<close> gives the last value of the argument, or the default;
  \<^verbatim>\<open>get_argument(name)\<close> raises tornado's MissingArgumentError, an HTTPError 400.\<close>

definition get_argument_default :: "'u request \<Rightarrow> string \<Rightarrow> string option \<Rightarrow> string option" where
  "get_argument_default req name dflt =
     (case map_of (arguments req) name of
        None \<Rightarrow> dflt
      | Some vs \<Rightarrow> (if vs = [] then dflt else Some (last vs)))"

definition get_argument :: "'u request \<Rightarrow> string \<Rightarrow> error + string" where
  "get_argument req name =
     (case get_argument_default req name None of
        None \<Rightarrow> Inl (HTTPError 400)
      | Some v \<Rightarrow> Inr v)"

definition headers_get :: "'u request \<Rightarrow> string \<Rightarrow> string option" where
  "headers_get req name = map_of (headers req) name"

text \<open>
  \<^verbatim>\<open>pre_get\<close>. The relay handle \<open>c\<close> is the object just stored in \<^verbatim>\<open>self.connection\<close>; the
  assignment to \<^verbatim>\<open>self.connection.session.session\<close> changes that object. The result is the
  exception raised, if any, with the handler as it is then.
\<close>

definition pre_get :: "('u, 'k) env \<Rightarrow> ('u, 'k) handler \<Rightarrow> error option \<times> ('u, 'k) handler" where
  "pre_get env h =
     (case current_user (request h) of
        None \<Rightarrow>
          (Some (HTTPError 403),
           emit (LogWarning (''Couldn'' @ [SQ] @ ''t authenticate WebSocket connection'')) h)
      | Some user \<Rightarrow>
          if \<not> is_authorized env user ''execute'' ''kernels'' then (Some (HTTPError 403), h)
          else
            (case get_kernel env (kernel_id h) of
               Inl e \<Rightarrow> (Some e, emit (GetKernel (kernel_id h)) h)
             | Inr kern \<Rightarrow>
                 let c = connection_class env kern;
                     h1 = (emit Construct (emit (GetKernel (kernel_id h)) h))
                            \<lparr>connection := Some c\<rparr>;
                     arg = get_argument_default (request h1) ''session_id'' None;
                     r2 = (if arg \<noteq> None \<and> arg \<noteq> Some []
                           then (case get_argument (request h1) ''session_id'' of
                                   Inl e \<Rightarrow> (Some e, c, h1)
                                 | Inr v \<Rightarrow>
                                     (None, c\<lparr>session := v\<rparr>,
                                      h1\<lparr>connection := Some (c\<lparr>session := v\<rparr>)\<rparr>))
                           else (None, c, emit (LogWarning ''No session ID specified'') h1))
                 in (case r2 of
                       (Some e, c', h2) \<Rightarrow> (Some e, h2)
                     | (None, c', h2) \<Rightarrow>
                         if has_prepare c' then (prepare_result env, emit Prepare h2)
                         else (None, h2))))"

text \<open>\<^verbatim>\<open>get\<close>: the handshake (\<^verbatim>\<open>super().get\<close>) is reached only when \<^verbatim>\<open>pre_get\<close> returns.\<close>

definition get :: "('u, 'k) env \<Rightarrow> ('u, 'k) handler \<Rightarrow> string \<Rightarrow> error option \<times> ('u, 'k) handler" where
  "get env h kid =
     (case pre_get env (h\<lparr>kernel_id := kid\<rparr>) of
        (Some e, h') \<Rightarrow> (Some e, h')
      | (None, h') \<Rightarrow> (None, emit (SuperGet kid) h'))"

text \<open>\<^verbatim>\<open>open\<close>: \<open>connect_result\<close> is what the relay handle's \<^verbatim>\<open>connect\<close> does, \<open>None\<close> when
  it returns and the exception when it fails. The two other calls on the relay handle,
  \<^verbatim>\<open>handle_incoming_message\<close> in \<^verbatim>\<open>on_message\<close> and \<^verbatim>\<open>disconnect\<close> in \<^verbatim>\<open>on_close\<close>, are
  recorded and taken to return, as their contract says. An attribute read on a
  \<^verbatim>\<open>connection\<close> that is \<^verbatim>\<open>None\<close> raises AttributeError.\<close>

definition open_ws :: "error option \<Rightarrow> ('u, 'k) handler \<Rightarrow> error option \<times> ('u, 'k) handler" where
  "open_ws connect_result h =
     (let h1 = emit (LogInfo (''Connecting to kernel '' @ kernel_id h @ ''.'')) h
      in case connection h1 of
           None \<Rightarrow> (Some AttributeError, h1)
         | Some c \<Rightarrow> (connect_result, emit Connect h1))"

definition on_message ::
  "(string \<Rightarrow> py_value option) \<Rightarrow> (py_value \<Rightarrow> string) \<Rightarrow> ('u, 'k) handler \<Rightarrow> frame
     \<Rightarrow> error option \<times> ('u, 'k) handler" where
  "on_message loads dumps h ws_message =
     (let ws_message' =
            on_message_rewrite loads dumps
              (headers_get (request h) ''X-Forwarded-Access-Token'') ws_message
      in case connection h of
           None \<Rightarrow> (Some AttributeError, h)
         | Some c \<Rightarrow> (None, emit (HandleIncoming ws_message') h))"

definition on_close :: "('u, 'k) handler \<Rightarrow> error option \<times> ('u, 'k) handler" where
  "on_close h =
     (case connection h of
        None \<Rightarrow> (Some AttributeError, h)
      | Some c \<Rightarrow> (None, (emit Disconnect h)\<lparr>connection := None\<rparr>))"

definition select_subprotocol ::
  "('u, 'k) handler \<Rightarrow> string list \<Rightarrow> error + string option" where
  "select_subprotocol h subprotocols =
     (case connection h of
        None \<Rightarrow> Inl AttributeError
      | Some c \<Rightarrow>
          let preferred_protocol =
                (case kernel_ws_protocol c of
                   None \<Rightarrow> Some ''v1.kernel.websocket.jupyter.org''
                 | Some p \<Rightarrow> (if p = [] then None else Some p))
          in Inr (case preferred_protocol of
                    None \<Rightarrow> None
                  | Some p \<Rightarrow> (if p \<in> set subprotocols then Some p else None)))"

subsection \<open>The callbacks of one connection\<close>

text \<open>
  After admission the transport calls \<^verbatim>\<open>open\<close>, \<^verbatim>\<open>on_message\<close> and \<^verbatim>\<open>on_close\<close> on the
  handler. An exception a callback raises goes to the transport; the handler object
  keeps the state the callback left. Which callbacks the transport makes, and whether an
  \<^verbatim>\<open>on_close\<close> follows a failed \<^verbatim>\<open>open\<close>, is not decided by the handler: \<open>run\<close> performs
  any sequence of callbacks.
\<close>

datatype callback = Open "error option" | OnMessage frame | OnClose

definition dispatch ::
  "(string \<Rightarrow> py_value option) \<Rightarrow> (py_value \<Rightarrow> string) \<Rightarrow> ('u, 'k) handler \<Rightarrow> callback
     \<Rightarrow> ('u, 'k) handler" where
  "dispatch loads dumps h cb =
     (case cb of
        Open connect_result \<Rightarrow> snd (open_ws connect_result h)
      | OnMessage ws_message \<Rightarrow> snd (on_message loads dumps h ws_message)
      | OnClose \<Rightarrow> snd (on_close h))"

fun run ::
  "(string \<Rightarrow> py_value option) \<Rightarrow> (py_value \<Rightarrow> string) \<Rightarrow> ('u, 'k) handler \<Rightarrow> callback list
     \<Rightarrow> ('u, 'k) handler" where
  "run loads dumps h [] = h"
| "run loads dumps h (cb # cbs) = run loads dumps (dispatch loads dumps h cb) cbs"

text \<open>The calls made on the relay handle, out of all recorded effects.\<close>

fun is_relay_call :: "effect \<Rightarrow> bool" where
  "is_relay_call Connect = True"
| "is_relay_call (HandleIncoming f) = True"
| "is_relay_call Disconnect = True"
| "is_relay_call Prepare = True"
| "is_relay_call e = False"

definition relay_calls :: "('u, 'k) handler \<Rightarrow> effect list" where
  "relay_calls h = filter is_relay_call (effects h)"

subsection \<open>A model of \<^verbatim>\<open>json.dumps\<close>\<close>

text \<open>
  \<^verbatim>\<open>json.dumps\<close> with its default arguments: the separators are \<^verbatim>\<open>", "\<close> and \<^verbatim>\<open>": "\<close>,
  and with \<^verbatim>\<open>ensure_ascii\<close> every character outside the range from the space to the
  tilde is escaped. A float prints as its \<^verbatim>\<open>repr\<close>, except the three that JSON has no
  literal for.
\<close>

definition encode_char :: "char \<Rightarrow> string" where
  "encode_char c =
     (if c = DQ then [BSL, DQ]
      else if c = BSL then [BSL, BSL]
      else if c = NL then [BSL, CHR ''n'']
      else if c = CHR 0x0D then [BSL, CHR ''r'']
      else if c = CHR 0x09 then [BSL, CHR ''t'']
      else if c = CHR 0x08 then [BSL, CHR ''b'']
      else if c = CHR 0x0C then [BSL, CHR ''f'']
      else if 0x20 \<le> (of_char c :: nat) \<and> (of_char c :: nat) \<le> 0x7E then [c]
      else [BSL, CHR ''u'', CHR ''0'', CHR ''0'',
            digit_char (of_char c div 16), digit_char (of_char c mod 16)])"

definition encode_basestring_ascii :: "string \<Rightarrow> string" where
  "encode_basestring_ascii s = [DQ] @ concat (map encode_char s) @ [DQ]"

definition floatstr :: "string \<Rightarrow> string" where
  "floatstr r =
     (if r = ''nan'' then ''NaN''
      else if r = ''inf'' then ''Infinity''
      else if r = ''-inf'' then ''-Infinity''
      else r)"

fun json_dumps :: "py_value \<Rightarrow> string"
  and json_dumps_items :: "py_value list \<Rightarrow> string"
  and json_dumps_pairs :: "(string \<times> py_value) list \<Rightarrow> string"
where
  "json_dumps PyNone = ''null''"
| "json_dumps (PyBool b) = (if b then ''true'' else ''false'')"
| "json_dumps (PyInt i) = str_int i"
| "json_dumps (PyFloat r) = floatstr r"
| "json_dumps (PyStr s) = encode_basestring_ascii s"
| "json_dumps (PyList xs) = ''['' @ json_dumps_items xs @ '']''"
| "json_dumps (PyDict kvs) = ''{'' @ json_dumps_pairs kvs @ ''}''"
| "json_dumps_items [] = []"
| "json_dumps_items [x] = json_dumps x"
| "json_dumps_items (x # y # xs) = json_dumps x @ '', '' @ json_dumps_items (y # xs)"
| "json_dumps_pairs [] = []"
| "json_dumps_pairs [(k, v)] = encode_basestring_ascii k @ '': '' @ json_dumps v"
| "json_dumps_pairs ((k, v) # p # kvs) =
     encode_basestring_ascii k @ '': '' @ json_dumps v @ '', '' @ json_dumps_pairs (p # kvs)"

subsection \<open>A model of \<^verbatim>\<open>json.loads\<close>\<close>

text \<open>
  \<^verbatim>\<open>json.loads\<close> on a \<^verbatim>\<open>str\<close>, in two passes over the text: the tokens, then the
  nesting. The grammar is the one of CPython's scanner: white space is space, tab, line
  feed and carriage return; a string is strict (no raw control character) with the
  escapes of \<^verbatim>\<open>BACKSLASH\<close> and \<^verbatim>\<open>\uXXXX\<close>; an integer is \<^verbatim>\<open>-?(0|[1-9][0-9]*)\<close>; the
  literals are \<^verbatim>\<open>null\<close>, \<^verbatim>\<open>true\<close>, \<^verbatim>\<open>false\<close>, \<^verbatim>\<open>NaN\<close>, \<^verbatim>\<open>Infinity\<close> and \<^verbatim>\<open>-Infinity\<close>;
  a repeated key keeps its first place and its last value, as \<^verbatim>\<open>dict(pairs)\<close> does.

  The model departs from CPython in these places. It answers \<open>None\<close> for a number with a
  fraction or an exponent (a float, whose \<^verbatim>\<open>repr\<close> would have to be computed) and for an
  escape \<^verbatim>\<open>\uXXXX\<close> above \<^verbatim>\<open>\u00ff\<close> (a code point a \<^typ>\<open>char\<close> cannot hold), both of
  which CPython accepts; and it accepts a text nested deeper than the recursion limit or
  an integer longer than the digit limit, on which CPython raises. It is applied below
  only to texts that have none of these.
\<close>

datatype token =
    TLBrace | TRBrace | TLBrack | TRBrack | TComma | TColon
  | TValue py_value

datatype lex_mode =
    LIdle
  | LStr string
  | LEsc string
  | LUni string "nat list"
  | LLit string token
  | LNeg
  | LNum bool nat

definition is_ws :: "char \<Rightarrow> bool" where
  "is_ws c = (c = CHR '' '' \<or> c = CHR 0x09 \<or> c = NL \<or> c = CHR 0x0D)"

definition digit_val :: "char \<Rightarrow> nat option" where
  "digit_val c =
     (let n = (of_char c :: nat)
      in if 0x30 \<le> n \<and> n \<le> 0x39 then Some (n - 0x30) else None)"

definition hex_val :: "char \<Rightarrow> nat option" where
  "hex_val c =
     (let n = (of_char c :: nat)
      in if 0x30 \<le> n \<and> n \<le> 0x39 then Some (n - 0x30)
         else if 0x61 \<le> n \<and> n \<le> 0x66 then Some (n - 0x61 + 10)
         else if 0x41 \<le> n \<and> n \<le> 0x46 then Some (n - 0x41 + 10)
         else None)"

definition backslash :: "char \<Rightarrow> char option" where
  "backslash c =
     (if c = DQ then Some DQ
      else if c = BSL then Some BSL
      else if c = CHR ''/'' then Some (CHR ''/'')
      else if c = CHR ''b'' then Some (CHR 0x08)
      else if c = CHR ''f'' then Some (CHR 0x0C)
      else if c = CHR ''n'' then Some NL
      else if c = CHR ''r'' then Some (CHR 0x0D)
      else if c = CHR ''t'' then Some (CHR 0x09)
      else None)"

definition int_token :: "bool \<Rightarrow> nat \<Rightarrow> token" where
  "int_token neg n = TValue (PyInt (if neg then - int n else int n))"

text \<open>The first character of a token, met between two tokens.\<close>

definition lex_start :: "char \<Rightarrow> (lex_mode \<times> token list) option" where
  "lex_start c =
     (if is_ws c then Some (LIdle, [])
      else if c = DQ then Some (LStr [], [])
      else if c = CHR ''{'' then Some (LIdle, [TLBrace])
      else if c = CHR ''}'' then Some (LIdle, [TRBrace])
      else if c = CHR ''['' then Some (LIdle, [TLBrack])
      else if c = CHR '']'' then Some (LIdle, [TRBrack])
      else if c = CHR '','' then Some (LIdle, [TComma])
      else if c = CHR '':'' then Some (LIdle, [TColon])
      else if c = CHR ''n'' then Some (LLit ''ull'' (TValue PyNone), [])
      else if c = CHR ''t'' then Some (LLit ''rue'' (TValue (PyBool True)), [])
      else if c = CHR ''f'' then Some (LLit ''alse'' (TValue (PyBool False)), [])
      else if c = CHR ''N'' then Some (LLit ''aN'' (TValue (PyFloat ''nan'')), [])
      else if c = CHR ''I'' then Some (LLit ''nfinity'' (TValue (PyFloat ''inf'')), [])
      else if c = CHR ''-'' then Some (LNeg, [])
      else if c = CHR ''0'' then Some (LIdle, [int_token False 0])
      else (case digit_val c of
              Some d \<Rightarrow> Some (LNum False d, [])
            | None \<Rightarrow> None))"

fun lex :: "lex_mode \<Rightarrow> token list \<Rightarrow> string \<Rightarrow> token list option" where
  "lex m acc [] =
     (case m of
        LIdle \<Rightarrow> Some (rev acc)
      | LNum neg n \<Rightarrow> Some (rev (int_token neg n # acc))
      | _ \<Rightarrow> None)"
| "lex m acc (c # cs) =
     (case m of
        LIdle \<Rightarrow>
          (case lex_start c of
             None \<Rightarrow> None
           | Some (m', ts) \<Rightarrow> lex m' (ts @ acc) cs)
      | LNum neg n \<Rightarrow>
          (case digit_val c of
             Some d \<Rightarrow> lex (LNum neg (10 * n + d)) acc cs
           | None \<Rightarrow>
               (case lex_start c of
                  None \<Rightarrow> None
                | Some (m', ts) \<Rightarrow> lex m' (ts @ int_token neg n # acc) cs))
      | LNeg \<Rightarrow>
          (if c = CHR ''0'' then lex LIdle (int_token True 0 # acc) cs
           else if c = CHR ''I'' then lex (LLit ''nfinity'' (TValue (PyFloat ''-inf''))) acc cs
           else (case digit_val c of
                   Some d \<Rightarrow> lex (LNum True d) acc cs
                 | None \<Rightarrow> None))
      | LLit expected t \<Rightarrow>
          (case expected of
             [] \<Rightarrow> None
           | e # es \<Rightarrow>
               if c \<noteq> e then None
               else if es = [] then lex LIdle (t # acc) cs
               else lex (LLit es t) acc cs)
      | LStr s \<Rightarrow>
          (if c = DQ then lex LIdle (TValue (PyStr (rev s)) # acc) cs
           else if c = BSL then lex (LEsc s) acc cs
           else if (of_char c :: nat) < 0x20 then None
           else lex (LStr (c # s)) acc cs)
      | LEsc s \<Rightarrow>
          (if c = CHR ''u'' then lex (LUni s []) acc cs
           else (case backslash c of
                   None \<Rightarrow> None
                 | Some ch \<Rightarrow> lex (LStr (ch # s)) acc cs))
      | LUni s hs \<Rightarrow>
          (case hex_val c of
             None \<Rightarrow> None
           | Some h \<Rightarrow>
               if length hs < 3 then lex (LUni s (hs @ [h])) acc cs
               else (let n = foldl (\<lambda>a d. 16 * a + d) 0 (hs @ [h])
                     in if n < 256 then lex (LStr (char_of n # s)) acc cs else None)))"

text \<open>The nesting: a stack of the containers that are open.\<close>

datatype open_container =
    SArr "py_value list"
  | SObj "(string \<times> py_value) list"
  | SKey "(string \<times> py_value) list" string

datatype parse_mode =
    PValue | PFirstElem | PFirstKey | PKey | PColon | PSep
  | PDone py_value

definition dict_of_pairs :: "(string \<times> py_value) list \<Rightarrow> (string \<times> py_value) list" where
  "dict_of_pairs pairs = foldl (\<lambda>d kv. AList.update (fst kv) (snd kv) d) [] pairs"

text \<open>A finished value goes to the innermost open container, or is the result.\<close>

definition deliver ::
  "py_value \<Rightarrow> open_container list \<Rightarrow> (parse_mode \<times> open_container list) option" where
  "deliver v st =
     (case st of
        [] \<Rightarrow> Some (PDone v, [])
      | SArr es # r \<Rightarrow> Some (PSep, SArr (v # es) # r)
      | SKey ps k # r \<Rightarrow> Some (PSep, SObj ((k, v) # ps) # r)
      | SObj ps # r \<Rightarrow> None)"

definition start_value ::
  "token \<Rightarrow> open_container list \<Rightarrow> (parse_mode \<times> open_container list) option" where
  "start_value t st =
     (case t of
        TValue v \<Rightarrow> deliver v st
      | TLBrack \<Rightarrow> Some (PFirstElem, SArr [] # st)
      | TLBrace \<Rightarrow> Some (PFirstKey, SObj [] # st)
      | _ \<Rightarrow> None)"

definition close_array ::
  "open_container list \<Rightarrow> (parse_mode \<times> open_container list) option" where
  "close_array st =
     (case st of
        SArr es # r \<Rightarrow> deliver (PyList (rev es)) r
      | _ \<Rightarrow> None)"

definition close_object ::
  "open_container list \<Rightarrow> (parse_mode \<times> open_container list) option" where
  "close_object st =
     (case st of
        SObj ps # r \<Rightarrow> deliver (PyDict (dict_of_pairs (rev ps))) r
      | _ \<Rightarrow> None)"

definition start_key ::
  "token \<Rightarrow> open_container list \<Rightarrow> (parse_mode \<times> open_container list) option" where
  "start_key t st =
     (case (t, st) of
        (TValue (PyStr k), SObj ps # r) \<Rightarrow> Some (PColon, SKey ps k # r)
      | _ \<Rightarrow> None)"

definition parse_step ::
  "parse_mode \<Rightarrow> open_container list \<Rightarrow> token
     \<Rightarrow> (parse_mode \<times> open_container list) option" where
  "parse_step m st t =
     (case m of
        PValue \<Rightarrow> start_value t st
      | PFirstElem \<Rightarrow> (if t = TRBrack then close_array st else start_value t st)
      | PFirstKey \<Rightarrow> (if t = TRBrace then close_object st else start_key t st)
      | PKey \<Rightarrow> start_key t st
      | PColon \<Rightarrow> (if t = TColon then Some (PValue, st) else None)
      | PSep \<Rightarrow>
          (if t = TRBrack then close_array st
           else if t = TRBrace then close_object st
           else if t = TComma
           then (case st of
                   SArr es # r \<Rightarrow> Some (PValue, st)
                 | SObj ps # r \<Rightarrow> Some (PKey, st)
                 | _ \<Rightarrow> None)
           else None)
      | PDone v \<Rightarrow> None)"

fun parse :: "parse_mode \<Rightarrow> open_container list \<Rightarrow> token list \<Rightarrow> py_value option" where
  "parse m st [] = (case m of PDone v \<Rightarrow> Some v | _ \<Rightarrow> None)"
| "parse m st (t # ts) =
     (case parse_step m st t of
        None \<Rightarrow> None
      | Some (m', st') \<Rightarrow> parse m' st' ts)"

definition json_loads :: "string \<Rightarrow> py_value option" where
  "json_loads s =
     (case lex LIdle [] s of
        None \<Rightarrow> None
      | Some ts \<Rightarrow> parse PValue [] ts)"

section \<open>Properties of the rewrite\<close>

subsection \<open>What the \<^verbatim>\<open>try\<close> block does, case by case\<close>

lemma try_parse_failure:
  "loads w = None \<Longrightarrow> on_message_try loads dumps token w = Inl JSONDecodeError"
  by (simp add: on_message_try_def)

lemma try_not_dict:
  assumes "loads w = Some v" and "\<forall>m. v \<noteq> PyDict m"
  shows "on_message_try loads dumps token w = Inl AttributeError"
  using assms by (cases v) (simp_all add: on_message_try_def py_get_def bind_result_def)

lemma try_execute_request:
  assumes "loads w = Some (PyDict m)"
    and "map_of m ''header'' = Some (PyDict hdr)"
    and "map_of hdr ''msg_type'' = Some (PyStr ''execute_request'')"
    and "map_of m ''content'' = Some (PyDict c)"
    and "map_of c ''code'' = Some code"
    and "code \<noteq> PyNone"
  shows "on_message_try loads dumps token w =
           Inr (dumps (PyDict (AList.update ''content''
                  (PyDict (AList.update ''code''
                     (PyStr (environ_assignment token @ py_format code)) c)) m)))"
  using assms
  by (simp add: on_message_try_def py_get_def py_getitem_def py_setitem_def bind_result_def)

lemma try_other_request:
  assumes "loads w = Some (PyDict m)"
    and "\<not> (\<exists>hdr. map_of m ''header'' = Some (PyDict hdr)
              \<and> map_of hdr ''msg_type'' = Some (PyStr ''execute_request''))"
  shows "on_message_try loads dumps token w =
           (case map_of m ''header'' of
              None \<Rightarrow> Inr (dumps (PyDict m))
            | Some (PyDict hdr) \<Rightarrow> Inr (dumps (PyDict m))
            | Some _ \<Rightarrow> Inl AttributeError)"
  using assms
  by (auto simp add: on_message_try_def py_get_def bind_result_def
      split: option.splits py_value.splits)


lemma environ_assignment_absent:
  "environ_assignment None = environ_assignment (Some ''None'')"
  by (simp add: environ_assignment_def py_of_header_def py_format_def)

lemma try_absent_header:
  "on_message_try loads dumps None w = on_message_try loads dumps (Some ''None'') w"
  unfolding on_message_try_def environ_assignment_absent by (rule refl)


lemma on_message_open:
  assumes "connection h = Some rc"
  shows "on_message loads dumps h f =
           (None, emit (HandleIncoming (on_message_rewrite loads dumps
                    (headers_get (request h) ''X-Forwarded-Access-Token'') f)) h)"
  using assms by (simp add: on_message_def Let_def)

subsection \<open>The rewrite of an execute request\<close>




text \<open>
  Claim C7. For every inbound execute-request frame (an object whose \<^verbatim>\<open>header.msg_type\<close>
  is \<^verbatim>\<open>"execute_request"\<close> and whose \<^verbatim>\<open>content.code\<close> is present and not null) that
  \<^verbatim>\<open>on_message\<close> receives on an open connection while the request has no
  \<^verbatim>\<open>X-Forwarded-Access-Token\<close> header, the rewrite still takes place: the frame handed to
  the relay handle carries the assignment of the text \<^verbatim>\<open>None\<close> to the environment
  variable, in front of the original code. The outcome is the one of a request whose
  header value is the four characters \<^verbatim>\<open>None\<close>, so the injected code cannot tell the
  absence.
\<close>

theorem absent_header_sentinel:
  assumes "connection h = Some rc"
    and "headers_get (request h) ''X-Forwarded-Access-Token'' = None"
    and "loads w = Some (PyDict m)"
    and "map_of m ''header'' = Some (PyDict hdr)"
    and "map_of hdr ''msg_type'' = Some (PyStr ''execute_request'')"
    and "map_of m ''content'' = Some (PyDict c)"
    and "map_of c ''code'' = Some code"
    and "code \<noteq> PyNone"
  shows "on_message loads dumps h (Text w) =
           (None, emit (HandleIncoming (Text (dumps (PyDict (AList.update ''content''
              (PyDict (AList.update ''code''
                 (PyStr (''import os'' @ [NL] @ ''os.environ['' @ [SQ] @ ''FORWARDED_ACCESS_TOKEN''
                    @ [SQ] @ ''] = '' @ [SQ] @ ''None'' @ [SQ] @ [NL] @ py_format code)) c)) m)))))
              h)
         \<and> on_message_rewrite loads dumps None (Text w) =
             on_message_rewrite loads dumps (Some ''None'') (Text w)"
proof -
  have "on_message_try loads dumps None w =
           Inr (dumps (PyDict (AList.update ''content''
                  (PyDict (AList.update ''code''
                     (PyStr (environ_assignment None @ py_format code)) c)) m)))"
    using assms(3-8) by (rule try_execute_request)
  then show ?thesis
    using assms(1,2)
    by (simp add: on_message_def on_message_rewrite_def Let_def try_absent_header
        environ_assignment_def py_of_header_def py_format_def)
qed

text \<open>A request without the header, and the code \<^verbatim>\<open>x = 1\<close>.\<close>

theorem absent_header_sentinel_witness:
  \<open>on_message json_loads json_dumps
      \<lparr>request = \<lparr>current_user = Some (1::nat), arguments = [], headers = []\<rparr>,
       kernel_id = ''k1'',
       connection = Some \<lparr>parent = (), kernel_ws_protocol = None, session = ''s0'',
                           has_prepare = False\<rparr>,
       effects = []\<rparr>
      (Text ''{"header":{"msg_type":"execute_request"},"content":{"code":"x = 1"}}'')
    = (None,
       \<lparr>request = \<lparr>current_user = Some (1::nat), arguments = [], headers = []\<rparr>,
       kernel_id = ''k1'',
       connection = Some \<lparr>parent = (), kernel_ws_protocol = None, session = ''s0'',
                           has_prepare = False\<rparr>,
       effects = [HandleIncoming
          (Text (''{"header": {"msg_type": "execute_request"}, "content": {"code": "import os''
            @ [BSL] @ ''nos.environ['' @ [SQ] @ ''FORWARDED_ACCESS_TOKEN'' @ [SQ] @ ''] = ''
            @ [SQ] @ ''None'' @ [SQ] @ [BSL] @ ''nx = 1"}}''))]\<rparr>)\<close>
proof -
  let ?w = \<open>''{"header":{"msg_type":"execute_request"},"content":{"code":"x = 1"}}''\<close>
  let ?hdr = "[(''msg_type'', PyStr ''execute_request'')]"
  let ?c = "[(''code'', PyStr ''x = 1'')]"
  let ?m = "[(''header'', PyDict ?hdr), (''content'', PyDict ?c)]"
  let ?rc = "\<lparr>parent = (), kernel_ws_protocol = None, session = ''s0'', has_prepare = False\<rparr>"
  let ?h = "\<lparr>request = \<lparr>current_user = Some (1::nat), arguments = [], headers = []\<rparr>,
       kernel_id = ''k1'', connection = Some ?rc, effects = []\<rparr>"
  have p: "json_loads ?w = Some (PyDict ?m)"
    by code_simp
  have d: "json_dumps (PyDict (AList.update ''content''
              (PyDict (AList.update ''code''
                 (PyStr (''import os'' @ [NL] @ ''os.environ['' @ [SQ] @ ''FORWARDED_ACCESS_TOKEN''
                    @ [SQ] @ ''] = '' @ [SQ] @ ''None'' @ [SQ] @ [NL]
                    @ py_format (PyStr ''x = 1''))) ?c)) ?m))
      = ''{\"header\": {\"msg_type\": \"execute_request\"}, \"content\": {\"code\": \"import os''
            @ [BSL] @ ''nos.environ['' @ [SQ] @ ''FORWARDED_ACCESS_TOKEN'' @ [SQ] @ ''] = ''
            @ [SQ] @ ''None'' @ [SQ] @ [BSL] @ ''nx = 1\"}}''"
    by code_simp
  have "on_message json_loads json_dumps ?h (Text ?w) =
           (None, emit (HandleIncoming (Text (json_dumps (PyDict (AList.update ''content''
              (PyDict (AList.update ''code''
                 (PyStr (''import os'' @ [NL] @ ''os.environ['' @ [SQ] @ ''FORWARDED_ACCESS_TOKEN''
                    @ [SQ] @ ''] = '' @ [SQ] @ ''None'' @ [SQ] @ [NL]
                    @ py_format (PyStr ''x = 1''))) ?c)) ?m))))) ?h)"
    using p absent_header_sentinel [where loads = json_loads and dumps = json_dumps
        and h = ?h and rc = ?rc and w = ?w and m = ?m and hdr = ?hdr and c = ?c
        and code = "PyStr ''x = 1''"]
    by (simp add: headers_get_def)
  then show ?thesis
    unfolding d by (simp add: emit_def)
qed

subsection \<open>Frames that are not execute requests\<close>

text \<open>
  Claim C4, as stated, at the frame
  \<^verbatim>\<open>{"header":{"msg_type":"kernel_info_request"},"content":{"a":1}}\<close>: the one frame handed
  to the relay handle is the text \<^verbatim>\<open>json.dumps\<close> prints for the parsed envelope, with a space
  after each colon and comma. The bytes \<^verbatim>\<open>{"a":1}\<close> of the input's \<^verbatim>\<open>content\<close> occur
  nowhere in it; its \<^verbatim>\<open>content\<close> is \<^verbatim>\<open>{"a": 1}\<close>.
\<close>

theorem other_request_reserialised:
  \<open>(let h = \<lparr>request = \<lparr>current_user = Some ''alice'', arguments = [],
                          headers = [(''X-Forwarded-Access-Token'', ''TOK'')]\<rparr>,
             kernel_id = ''k1'',
             connection = Some \<lparr>parent = (), kernel_ws_protocol = None, session = ''s0'',
                                 has_prepare = False\<rparr>,
             effects = []\<rparr>
    in fst (on_message json_loads json_dumps h
         (Text ''{"header":{"msg_type":"kernel_info_request"},"content":{"a":1}}'')) = None
     \<and> effects (snd (on_message json_loads json_dumps h
         (Text ''{"header":{"msg_type":"kernel_info_request"},"content":{"a":1}}'')))
       = [HandleIncoming
           (Text ''{"header": {"msg_type": "kernel_info_request"}, "content": {"a": 1}}'')])
   \<and> sublist ''"content":{"a":1}''
         ''{"header":{"msg_type":"kernel_info_request"},"content":{"a":1}}''
   \<and> \<not> sublist ''{"a":1}''
         ''{"header": {"msg_type": "kernel_info_request"}, "content": {"a": 1}}''\<close>
  by code_simp

text \<open>
  Claim C4, amended. For every inbound text frame that parses as a JSON object \<open>m\<close> whose
  \<^verbatim>\<open>header.msg_type\<close> is not \<^verbatim>\<open>"execute_request"\<close>, \<^verbatim>\<open>on_message\<close> on an open connection
  returns after one call of the relay handle's \<^verbatim>\<open>handle_incoming_message\<close>, whose frame is
  the serialisation \<^verbatim>\<open>json.dumps\<close> gives for \<open>m\<close> itself, so \<^verbatim>\<open>content\<close> and every other
  field have the values they had in the input, while the bytes are those of
  \<^verbatim>\<open>json.dumps\<close>; when \<^verbatim>\<open>header\<close> is present and not an object, the original frame is
  forwarded byte-identical.
\<close>

theorem other_request_forwarded:
  assumes "connection h = Some rc"
    and "loads w = Some (PyDict m)"
    and "\<not> (\<exists>hdr. map_of m ''header'' = Some (PyDict hdr)
              \<and> map_of hdr ''msg_type'' = Some (PyStr ''execute_request''))"
  shows "fst (on_message loads dumps h (Text w)) = None
       \<and> effects (snd (on_message loads dumps h (Text w))) =
           effects h @ [HandleIncoming
              (case map_of m ''header'' of
                 None \<Rightarrow> Text (dumps (PyDict m))
               | Some (PyDict hdr) \<Rightarrow> Text (dumps (PyDict m))
               | Some _ \<Rightarrow> Text w)]"
  using assms
  by (simp add: on_message_def emit_def Let_def on_message_rewrite_def try_other_request
      split: option.splits py_value.splits)

text \<open>A \<^verbatim>\<open>kernel_info_request\<close> whose \<^verbatim>\<open>content\<close> comes first and holds a list.\<close>

theorem other_request_forwarded_witness:
  \<open>(let h = \<lparr>request = \<lparr>current_user = Some ''alice'', arguments = [],
                          headers = [(''X-Forwarded-Access-Token'', ''TOK'')]\<rparr>,
             kernel_id = ''k1'',
             connection = Some \<lparr>parent = (), kernel_ws_protocol = None, session = ''s0'',
                                 has_prepare = False\<rparr>,
             effects = []\<rparr>
    in fst (on_message json_loads json_dumps h
         (Text ''{"content":{"a":[1,"x"]},"header":{"msg_type":"kernel_info_request"}}'')) = None
     \<and> effects (snd (on_message json_loads json_dumps h
         (Text ''{"content":{"a":[1,"x"]},"header":{"msg_type":"kernel_info_request"}}'')))
       = [HandleIncoming
           (Text ''{"content": {"a": [1, "x"]}, "header": {"msg_type": "kernel_info_request"}}'')])\<close>
proof -
  let ?w = \<open>''{"content":{"a":[1,"x"]},"header":{"msg_type":"kernel_info_request"}}''\<close>
  let ?m = "[(''content'', PyDict [(''a'', PyList [PyInt 1, PyStr ''x''])]),
             (''header'', PyDict [(''msg_type'', PyStr ''kernel_info_request'')])]"
  let ?rc = "\<lparr>parent = (), kernel_ws_protocol = None, session = ''s0'', has_prepare = False\<rparr>"
  let ?h = "\<lparr>request = \<lparr>current_user = Some ''alice'', arguments = [],
                          headers = [(''X-Forwarded-Access-Token'', ''TOK'')]\<rparr>,
             kernel_id = ''k1'', connection = Some ?rc, effects = []\<rparr>"
  have p: "json_loads ?w = Some (PyDict ?m)"
    by code_simp
  have d: \<open>json_dumps (PyDict ?m)
      = ''{"content": {"a": [1, "x"]}, "header": {"msg_type": "kernel_info_request"}}''\<close>
    by code_simp
  have n: "length (effects (snd (on_message json_loads json_dumps ?h (Text ?w)))) = 1"
    by (simp add: on_message_def emit_def Let_def)
  have "fst (on_message json_loads json_dumps ?h (Text ?w)) = None
      \<and> effects (snd (on_message json_loads json_dumps ?h (Text ?w)))
          = [HandleIncoming (Text (json_dumps (PyDict ?m)))]"
    using p n other_request_forwarded [where loads = json_loads and dumps = json_dumps
        and h = ?h and rc = ?rc and w = ?w and m = ?m]
    by simp
  then show ?thesis
    unfolding Let_def d by simp
qed

subsection \<open>Fail-open passthrough\<close>

text \<open>
  Claim C5. For every inbound frame that is binary, and every inbound text frame that
  \<^verbatim>\<open>json.loads\<close> does not parse, \<^verbatim>\<open>on_message\<close> on an open connection returns after one
  call of the relay handle's \<^verbatim>\<open>handle_incoming_message\<close>, and the frame of that call is
  byte-identical to the original.
\<close>

theorem passthrough:
  assumes "connection h = Some rc"
  shows "fst (on_message loads dumps h (Binary b)) = None
       \<and> effects (snd (on_message loads dumps h (Binary b))) =
           effects h @ [HandleIncoming (Binary b)]
       \<and> (loads w = None
            \<longrightarrow> fst (on_message loads dumps h (Text w)) = None
              \<and> effects (snd (on_message loads dumps h (Text w))) =
                  effects h @ [HandleIncoming (Text w)])"
  using assms
  by (simp add: on_message_def emit_def Let_def on_message_rewrite_def try_parse_failure)

text \<open>A binary frame, and a text frame that stops in the middle of an object.\<close>

theorem passthrough_witness:
  \<open>(let h = \<lparr>request = \<lparr>current_user = Some ''alice'', arguments = [],
                          headers = [(''X-Forwarded-Access-Token'', ''TOK'')]\<rparr>,
             kernel_id = ''k1'',
             connection = Some \<lparr>parent = (), kernel_ws_protocol = None, session = ''s0'',
                                 has_prepare = False\<rparr>,
             effects = []\<rparr>
    in fst (on_message json_loads json_dumps h (Binary [0, 255])) = None
     \<and> effects (snd (on_message json_loads json_dumps h (Binary [0, 255])))
         = [HandleIncoming (Binary [0, 255])]
     \<and> json_loads ''{"header":'' = None
     \<and> fst (on_message json_loads json_dumps h (Text ''{"header":'')) = None
     \<and> effects (snd (on_message json_loads json_dumps h (Text ''{"header":'')))
         = [HandleIncoming (Text ''{"header":'')])\<close>
proof -
  let ?rc = "\<lparr>parent = (), kernel_ws_protocol = None, session = ''s0'', has_prepare = False\<rparr>"
  let ?h = "\<lparr>request = \<lparr>current_user = Some ''alice'', arguments = [],
                          headers = [(''X-Forwarded-Access-Token'', ''TOK'')]\<rparr>,
             kernel_id = ''k1'', connection = Some ?rc, effects = []\<rparr>"
  have p: \<open>json_loads ''{"header":'' = None\<close>
    by code_simp
  have n: "length (effects (snd (on_message json_loads json_dumps ?h (Binary [0, 255])))) = 1"
    by (simp add: on_message_def emit_def Let_def)
  show ?thesis
    unfolding Let_def
    using p n passthrough [where loads = json_loads and dumps = json_dumps
        and h = ?h and rc = ?rc and b = "[0, 255]" and w = \<open>''{"header":''\<close>]
    by simp
qed

text \<open>
  Claim C10. Every inbound text frame that is valid JSON but does not decode to a JSON
  object (a number, a string, a list, a literal) reaches the relay handle, in the one call
  \<^verbatim>\<open>on_message\<close> makes on an open connection, byte-identical to the original: the \<^verbatim>\<open>AttributeError\<close> of \<^verbatim>\<open>message.get\<close>, raised after
  the parse has succeeded, is caught like a parse failure.
\<close>

theorem not_object_passthrough:
  assumes "connection h = Some rc"
    and "loads w = Some v"
    and "\<forall>m. v \<noteq> PyDict m"
  shows "fst (on_message loads dumps h (Text w)) = None
       \<and> effects (snd (on_message loads dumps h (Text w))) =
           effects h @ [HandleIncoming (Text w)]"
  using assms
  by (simp add: on_message_def emit_def Let_def on_message_rewrite_def try_not_dict)

text \<open>The list \<^verbatim>\<open>[1,"two"]\<close>, which \<^verbatim>\<open>json.dumps\<close> would print with a space.\<close>

theorem not_object_passthrough_witness:
  \<open>(let h = \<lparr>request = \<lparr>current_user = Some ''alice'', arguments = [],
                          headers = [(''X-Forwarded-Access-Token'', ''TOK'')]\<rparr>,
             kernel_id = ''k1'',
             connection = Some \<lparr>parent = (), kernel_ws_protocol = None, session = ''s0'',
                                 has_prepare = False\<rparr>,
             effects = []\<rparr>
    in json_loads ''[1,"two"]'' = Some (PyList [PyInt 1, PyStr ''two''])
     \<and> json_dumps (PyList [PyInt 1, PyStr ''two'']) = ''[1, "two"]''
     \<and> fst (on_message json_loads json_dumps h (Text ''[1,"two"]'')) = None
     \<and> effects (snd (on_message json_loads json_dumps h (Text ''[1,"two"]'')))
         = [HandleIncoming (Text ''[1,"two"]'')])\<close>
proof -
  let ?rc = "\<lparr>parent = (), kernel_ws_protocol = None, session = ''s0'', has_prepare = False\<rparr>"
  let ?h = "\<lparr>request = \<lparr>current_user = Some ''alice'', arguments = [],
                          headers = [(''X-Forwarded-Access-Token'', ''TOK'')]\<rparr>,
             kernel_id = ''k1'', connection = Some ?rc, effects = []\<rparr>"
  have p: \<open>json_loads ''[1,"two"]'' = Some (PyList [PyInt 1, PyStr ''two''])\<close>
    by code_simp
  have d: \<open>json_dumps (PyList [PyInt 1, PyStr ''two'']) = ''[1, "two"]''\<close>
    by code_simp
  have n: \<open>length (effects (snd (on_message json_loads json_dumps ?h (Text ''[1,"two"]'')))) = 1\<close>
    by (simp add: on_message_def emit_def Let_def)
  show ?thesis
    unfolding Let_def
    using p d n not_object_passthrough [where loads = json_loads and dumps = json_dumps
        and h = ?h and rc = ?rc and w = \<open>''[1,"two"]''\<close>
        and v = "PyList [PyInt 1, PyStr ''two'']"]
    by simp
qed

text \<open>
  Claim C6. For every inbound frame, text or binary, \<^verbatim>\<open>on_message\<close> on an open connection
  raises nothing: it returns after handing exactly one frame to the relay handle, the
  frame the rewrite produced. Whenever the \<^verbatim>\<open>try\<close> block raises (a parse failure or a
  structural failure of the envelope), and whenever the frame is binary, the frame handed
  over is the original one, unmodified.
\<close>

theorem on_message_never_raises:
  assumes "connection h = Some rc"
  shows "fst (on_message loads dumps h f) = None
    \<and> effects (snd (on_message loads dumps h f)) =
        effects h @ [HandleIncoming
          (on_message_rewrite loads dumps (headers_get (request h) ''X-Forwarded-Access-Token'') f)]
    \<and> (\<forall>s e. f = Text s
          \<and> on_message_try loads dumps (headers_get (request h) ''X-Forwarded-Access-Token'') s = Inl e
        \<longrightarrow> on_message_rewrite loads dumps
              (headers_get (request h) ''X-Forwarded-Access-Token'') f = f)
    \<and> (\<forall>b. f = Binary b
        \<longrightarrow> on_message_rewrite loads dumps
              (headers_get (request h) ''X-Forwarded-Access-Token'') f = f)"
  by (auto simp add: on_message_open [OF assms] on_message_rewrite_def emit_def)

text \<open>An envelope whose \<^verbatim>\<open>header\<close> is a string: it parses, \<^verbatim>\<open>.get\<close> on the string raises,
  and the original frame reaches the relay handle.\<close>

theorem on_message_never_raises_witness:
  \<open>(let h = \<lparr>request = \<lparr>current_user = Some ''alice'', arguments = [],
                          headers = [(''X-Forwarded-Access-Token'', ''TOK'')]\<rparr>,
             kernel_id = ''k1'',
             connection = Some \<lparr>parent = (), kernel_ws_protocol = None, session = ''s0'',
                                 has_prepare = False\<rparr>,
             effects = []\<rparr>
    in on_message_try json_loads json_dumps (Some ''TOK'')
           ''{"header":"execute_request","content":{"code":"print(1)"}}'' = Inl AttributeError
     \<and> fst (on_message json_loads json_dumps h
           (Text ''{"header":"execute_request","content":{"code":"print(1)"}}'')) = None
     \<and> effects (snd (on_message json_loads json_dumps h
           (Text ''{"header":"execute_request","content":{"code":"print(1)"}}'')))
         = [HandleIncoming (Text ''{"header":"execute_request","content":{"code":"print(1)"}}'')])\<close>
proof -
  let ?w = \<open>''{"header":"execute_request","content":{"code":"print(1)"}}''\<close>
  let ?rc = "\<lparr>parent = (), kernel_ws_protocol = None, session = ''s0'', has_prepare = False\<rparr>"
  let ?h = "\<lparr>request = \<lparr>current_user = Some ''alice'', arguments = [],
                          headers = [(''X-Forwarded-Access-Token'', ''TOK'')]\<rparr>,
             kernel_id = ''k1'', connection = Some ?rc, effects = []\<rparr>"
  have t: "on_message_try json_loads json_dumps (Some ''TOK'') ?w = Inl AttributeError"
    by code_simp
  have hg: "headers_get (request ?h) ''X-Forwarded-Access-Token'' = Some ''TOK''"
    by (simp add: headers_get_def)
  have c: "connection ?h = Some ?rc"
    by simp
  show ?thesis
    unfolding Let_def
    using on_message_never_raises [OF c, of json_loads json_dumps "Text ?w"] t hg
    by simp
qed

section \<open>Properties of the handler\<close>

subsection \<open>Admission\<close>

text \<open>
  Claim C2. For every connection request where no identity is resolved, or where the
  identity fails the authorization check for the action \<^verbatim>\<open>execute\<close> on the resource
  \<^verbatim>\<open>kernels\<close>, \<^verbatim>\<open>pre_get\<close> and with it \<^verbatim>\<open>get\<close> raise \<^verbatim>\<open>HTTPError(403)\<close>: the handshake of
  \<^verbatim>\<open>super().get\<close> is not reached, the handler's \<^verbatim>\<open>connection\<close> is left as it was (no relay
  handle is constructed), and nothing is called on a collaborator beyond the warning
  logged for a missing identity: no \<^verbatim>\<open>get_kernel\<close>, no construction, no \<^verbatim>\<open>connect\<close>.
\<close>

theorem admission_rejected:
  assumes "current_user (request h) = None
           \<or> (\<exists>u. current_user (request h) = Some u \<and> \<not> is_authorized env u ''execute'' ''kernels'')"
  shows "fst (pre_get env h) = Some (HTTPError 403)
       \<and> connection (snd (pre_get env h)) = connection h
       \<and> effects (snd (pre_get env h)) =
           effects h @ (if current_user (request h) = None
                        then [LogWarning (''Couldn'' @ [SQ] @ ''t authenticate WebSocket connection'')]
                        else [])
       \<and> fst (get env h kid) = Some (HTTPError 403)
       \<and> connection (snd (get env h kid)) = connection h
       \<and> effects (snd (get env h kid)) =
           effects h @ (if current_user (request h) = None
                        then [LogWarning (''Couldn'' @ [SQ] @ ''t authenticate WebSocket connection'')]
                        else [])"
  using assms
  by (auto simp add: pre_get_def get_def emit_def)

text \<open>A user the authorizer refuses, and a request without identity, on a fresh handler.\<close>

theorem admission_rejected_witness:
  "get \<lparr>is_authorized = (\<lambda>u a r. u = ''alice'' \<and> a = ''execute'' \<and> r = ''kernels''),
        get_kernel = (\<lambda>kid. Inr kid),
        connection_class = (\<lambda>k. \<lparr>parent = k, kernel_ws_protocol = None, session = ''s0'',
                                   has_prepare = True\<rparr>),
        prepare_result = None\<rparr>
       \<lparr>request = \<lparr>current_user = Some ''bob'', arguments = [(''session_id'', [''abc''])],
                    headers = []\<rparr>,
        kernel_id = [], connection = None, effects = []\<rparr>
       ''k1''
   = (Some (HTTPError 403),
      \<lparr>request = \<lparr>current_user = Some ''bob'', arguments = [(''session_id'', [''abc''])],
                    headers = []\<rparr>,
        kernel_id = ''k1'', connection = None, effects = []\<rparr>)
   \<and> get \<lparr>is_authorized = (\<lambda>u a r. u = ''alice'' \<and> a = ''execute'' \<and> r = ''kernels''),
        get_kernel = (\<lambda>kid. Inr kid),
        connection_class = (\<lambda>k. \<lparr>parent = k, kernel_ws_protocol = None, session = ''s0'',
                                   has_prepare = True\<rparr>),
        prepare_result = None\<rparr>
       \<lparr>request = \<lparr>current_user = (None :: string option),
                    arguments = [(''session_id'', [''abc''])], headers = []\<rparr>,
        kernel_id = [], connection = None, effects = []\<rparr>
       ''k1''
   = (Some (HTTPError 403),
      \<lparr>request = \<lparr>current_user = None, arguments = [(''session_id'', [''abc''])],
                    headers = []\<rparr>,
        kernel_id = ''k1'', connection = None,
        effects = [LogWarning (''Couldn'' @ [SQ] @ ''t authenticate WebSocket connection'')]\<rparr>)"
proof -
  let ?env = "\<lparr>is_authorized = (\<lambda>u a r. u = ''alice'' \<and> a = ''execute'' \<and> r = ''kernels''),
        get_kernel = (\<lambda>kid. Inr kid :: error + string),
        connection_class = (\<lambda>k. \<lparr>parent = k, kernel_ws_protocol = None, session = ''s0'',
                                   has_prepare = True\<rparr>),
        prepare_result = None\<rparr>"
  let ?hb = "\<lparr>request = \<lparr>current_user = Some ''bob'', arguments = [(''session_id'', [''abc''])],
                    headers = []\<rparr>,
        kernel_id = [], connection = (None :: string relay option), effects = []\<rparr>"
  let ?hn = "\<lparr>request = \<lparr>current_user = (None :: string option),
                    arguments = [(''session_id'', [''abc''])], headers = []\<rparr>,
        kernel_id = [], connection = (None :: string relay option), effects = []\<rparr>"
  have b: "fst (get ?env ?hb ''k1'') = Some (HTTPError 403)
         \<and> connection (snd (get ?env ?hb ''k1'')) = None
         \<and> effects (snd (get ?env ?hb ''k1'')) = []"
    using admission_rejected [where env = ?env and h = ?hb and kid = "''k1''"] by simp
  have n: "fst (get ?env ?hn ''k1'') = Some (HTTPError 403)
         \<and> connection (snd (get ?env ?hn ''k1'')) = None
         \<and> effects (snd (get ?env ?hn ''k1'')) =
              [LogWarning (''Couldn'' @ [SQ] @ ''t authenticate WebSocket connection'')]"
    using admission_rejected [where env = ?env and h = ?hn and kid = "''k1''"] by simp
  have rest_b: "request (snd (get ?env ?hb ''k1'')) = request ?hb
              \<and> kernel_id (snd (get ?env ?hb ''k1'')) = ''k1''"
    by (simp add: get_def pre_get_def emit_def)
  have rest_n: "request (snd (get ?env ?hn ''k1'')) = request ?hn
              \<and> kernel_id (snd (get ?env ?hn ''k1'')) = ''k1''"
    by (simp add: get_def pre_get_def emit_def)
  show ?thesis
    using b n rest_b rest_n
    by (simp add: prod_eq_iff handler.equality)
qed

text \<open>
  Claim C9. For every admitted request (identity resolved and authorized, kernel found)
  whose \<^verbatim>\<open>session_id\<close> query parameter is the empty string, \<^verbatim>\<open>pre_get\<close> does what it does
  when the parameter is absent: it logs the warning \<^verbatim>\<open>No session ID specified\<close> and leaves
  the relay handle as its constructor made it, session token included. The token is set,
  to the value of the parameter, only when that value is not empty.
\<close>

theorem session_id_argument:
  assumes "current_user (request h) = Some u"
    and "is_authorized env u ''execute'' ''kernels''"
    and "get_kernel env (kernel_id h) = Inr k"
  shows "((map_of (arguments (request h)) ''session_id'' = None
           \<or> (\<exists>vs. map_of (arguments (request h)) ''session_id'' = Some vs \<and> vs \<noteq> []
                    \<and> last vs = []))
          \<longrightarrow> connection (snd (pre_get env h)) = Some (connection_class env k)
            \<and> effects (snd (pre_get env h)) =
                effects h @ [GetKernel (kernel_id h), Construct,
                             LogWarning ''No session ID specified'']
                  @ (if has_prepare (connection_class env k) then [Prepare] else []))
       \<and> (\<forall>vs. map_of (arguments (request h)) ''session_id'' = Some vs \<and> vs \<noteq> []
                 \<and> last vs \<noteq> []
          \<longrightarrow> connection (snd (pre_get env h)) =
                Some ((connection_class env k)\<lparr>session := last vs\<rparr>)
            \<and> effects (snd (pre_get env h)) =
                effects h @ [GetKernel (kernel_id h), Construct]
                  @ (if has_prepare (connection_class env k) then [Prepare] else []))"
  using assms
  by (auto simp add: pre_get_def emit_def get_argument_def get_argument_default_def Let_def)

text \<open>The same request with an empty \<^verbatim>\<open>session_id\<close>, with none, and with \<^verbatim>\<open>abc\<close>.\<close>

theorem session_id_argument_witness:
  "(let env = \<lparr>is_authorized = (\<lambda>u a r. u = ''alice'' \<and> a = ''execute'' \<and> r = ''kernels''),
               get_kernel = (\<lambda>kid. Inr kid),
               connection_class = (\<lambda>k. \<lparr>parent = k, kernel_ws_protocol = None,
                                          session = ''default-session'', has_prepare = True\<rparr>),
               prepare_result = None\<rparr>;
        h = (\<lambda>args. \<lparr>request = \<lparr>current_user = Some ''alice'', arguments = args,
                                   headers = []\<rparr>,
                        kernel_id = ''k1'', connection = None, effects = []\<rparr>)
    in connection (snd (pre_get env (h [(''session_id'', [[]])])))
         = Some \<lparr>parent = ''k1'', kernel_ws_protocol = None, session = ''default-session'',
                  has_prepare = True\<rparr>
     \<and> effects (snd (pre_get env (h [(''session_id'', [[]])])))
         = [GetKernel ''k1'', Construct, LogWarning ''No session ID specified'', Prepare]
     \<and> connection (snd (pre_get env (h [])))
         = Some \<lparr>parent = ''k1'', kernel_ws_protocol = None, session = ''default-session'',
                  has_prepare = True\<rparr>
     \<and> effects (snd (pre_get env (h [])))
         = [GetKernel ''k1'', Construct, LogWarning ''No session ID specified'', Prepare]
     \<and> connection (snd (pre_get env (h [(''session_id'', [''abc''])])))
         = Some \<lparr>parent = ''k1'', kernel_ws_protocol = None, session = ''abc'',
                  has_prepare = True\<rparr>
     \<and> effects (snd (pre_get env (h [(''session_id'', [''abc''])])))
         = [GetKernel ''k1'', Construct, Prepare])"
proof -
  let ?env = "\<lparr>is_authorized = (\<lambda>u a r. u = ''alice'' \<and> a = ''execute'' \<and> r = ''kernels''),
               get_kernel = (\<lambda>kid. Inr kid :: error + string),
               connection_class = (\<lambda>k. \<lparr>parent = k, kernel_ws_protocol = None,
                                          session = ''default-session'', has_prepare = True\<rparr>),
               prepare_result = None\<rparr>"
  let ?h = "\<lambda>args. \<lparr>request = \<lparr>current_user = Some ''alice'', arguments = args,
                                   headers = []\<rparr>,
                        kernel_id = ''k1'', connection = (None :: string relay option),
                        effects = []\<rparr>"
  note s = session_id_argument [where env = ?env and h = "?h args" and u = "''alice''"
      and k = "''k1''" for args, simplified]
  show ?thesis
    unfolding Let_def
    using s [of "[(''session_id'', [[]])]"] s [of "[]"] s [of "[(''session_id'', [''abc''])]"]
    by simp
qed

subsection \<open>Sub-protocol selection\<close>

text \<open>
  Claim C3. For every list of sub-protocols the client offers, \<^verbatim>\<open>select_subprotocol\<close>
  returns: the default \<^verbatim>\<open>v1.kernel.websocket.jupyter.org\<close> when the relay handle's preferred
  protocol is \<^verbatim>\<open>None\<close> and the default is in the list; \<^verbatim>\<open>None\<close> when the preferred
  protocol is the empty string, whatever the list; the preferred value itself when it is
  in the list; and \<^verbatim>\<open>None\<close> otherwise.
\<close>

theorem select_subprotocol_cases:
  assumes "connection h = Some rc"
  shows "(kernel_ws_protocol rc = None \<and> ''v1.kernel.websocket.jupyter.org'' \<in> set subprotocols
            \<longrightarrow> select_subprotocol h subprotocols = Inr (Some ''v1.kernel.websocket.jupyter.org''))
       \<and> (kernel_ws_protocol rc = None \<and> ''v1.kernel.websocket.jupyter.org'' \<notin> set subprotocols
            \<longrightarrow> select_subprotocol h subprotocols = Inr None)
       \<and> (kernel_ws_protocol rc = Some [] \<longrightarrow> select_subprotocol h subprotocols = Inr None)
       \<and> (\<forall>p. kernel_ws_protocol rc = Some p \<and> p \<noteq> [] \<and> p \<in> set subprotocols
            \<longrightarrow> select_subprotocol h subprotocols = Inr (Some p))
       \<and> (\<forall>p. kernel_ws_protocol rc = Some p \<and> p \<noteq> [] \<and> p \<notin> set subprotocols
            \<longrightarrow> select_subprotocol h subprotocols = Inr None)"
  using assms by (simp add: select_subprotocol_def)

text \<open>One offered list for each of the five cases.\<close>

theorem select_subprotocol_cases_witness:
  "(let h = (\<lambda>p. \<lparr>request = \<lparr>current_user = Some ''alice'', arguments = [], headers = []\<rparr>,
                     kernel_id = ''k1'',
                     connection = Some \<lparr>parent = (), kernel_ws_protocol = p, session = ''s0'',
                                         has_prepare = False\<rparr>,
                     effects = []\<rparr>)
    in select_subprotocol (h None) [''v1.kernel.websocket.jupyter.org'']
         = Inr (Some ''v1.kernel.websocket.jupyter.org'')
     \<and> select_subprotocol (h None) [''x''] = Inr None
     \<and> select_subprotocol (h (Some [])) [[], ''v1.kernel.websocket.jupyter.org''] = Inr None
     \<and> select_subprotocol (h (Some ''x'')) [''y'', ''x''] = Inr (Some ''x'')
     \<and> select_subprotocol (h (Some ''x'')) [''v1.kernel.websocket.jupyter.org''] = Inr None)"
proof -
  let ?rc = "\<lambda>p. \<lparr>parent = (), kernel_ws_protocol = p, session = ''s0'', has_prepare = False\<rparr>"
  let ?h = "\<lambda>p. \<lparr>request = \<lparr>current_user = Some ''alice'', arguments = [], headers = []\<rparr>,
                  kernel_id = ''k1'', connection = Some (?rc p), effects = []\<rparr>"
  note c = select_subprotocol_cases [where h = "?h p" and rc = "?rc p" for p, simplified]
  show ?thesis
    unfolding Let_def
    using c [of None "[''v1.kernel.websocket.jupyter.org'']"]
      c [of None "[''x'']"]
      c [of "Some []" "[[], ''v1.kernel.websocket.jupyter.org'']"]
      c [of "Some ''x''" "[''y'', ''x'']"]
      c [of "Some ''x''" "[''v1.kernel.websocket.jupyter.org'']"]
    by simp
qed

subsection \<open>The relay lifecycle\<close>

lemma run_append:
  "run loads dumps h (xs @ ys) = run loads dumps (run loads dumps h xs) ys"
  by (induction xs arbitrary: h) simp_all

lemma dispatch_closed:
  assumes "connection h = None"
  shows "connection (dispatch loads dumps h cb) = None
       \<and> relay_calls (dispatch loads dumps h cb) = relay_calls h"
  using assms
  by (cases cb)
     (simp_all add: dispatch_def open_ws_def on_message_def on_close_def emit_def
        relay_calls_def Let_def)

lemma run_closed:
  assumes "connection h = None"
  shows "connection (run loads dumps h cbs) = None
       \<and> relay_calls (run loads dumps h cbs) = relay_calls h"
  using assms
proof (induction cbs arbitrary: h)
  case Nil
  then show ?case by simp
next
  case (Cons cb cbs)
  from Cons.prems have d: "connection (dispatch loads dumps h cb) = None"
    and r: "relay_calls (dispatch loads dumps h cb) = relay_calls h"
    by (simp_all add: dispatch_closed)
  from Cons.IH [OF d] r show ?case by simp
qed

lemma dispatch_before_close:
  assumes "connection h = Some rc" and "cb \<noteq> OnClose"
  shows "connection (dispatch loads dumps h cb) = Some rc
       \<and> count_list (effects (dispatch loads dumps h cb)) Disconnect
           = count_list (effects h) Disconnect"
  using assms
  by (cases cb)
     (simp_all add: dispatch_def open_ws_def on_message_def emit_def Let_def)

lemma run_before_close:
  assumes "connection h = Some rc" and "OnClose \<notin> set cbs"
  shows "connection (run loads dumps h cbs) = Some rc
       \<and> count_list (effects (run loads dumps h cbs)) Disconnect
           = count_list (effects h) Disconnect"
  using assms
proof (induction cbs arbitrary: h)
  case Nil
  then show ?case by simp
next
  case (Cons cb cbs)
  from Cons.prems have ne: "cb \<noteq> OnClose" and rest: "OnClose \<notin> set cbs"
    by auto
  from dispatch_before_close [OF Cons.prems(1) ne]
  have d: "connection (dispatch loads dumps h cb) = Some rc"
    and n: "count_list (effects (dispatch loads dumps h cb)) Disconnect
              = count_list (effects h) Disconnect"
    by simp_all
  from Cons.IH [OF d rest] n show ?case by simp
qed

lemma count_list_filter_relay:
  "count_list (filter is_relay_call es) Disconnect = count_list es Disconnect"
  by (induction es) auto

text \<open>
  Claim C8, as stated, at a connection whose closure originates from a backend connect
  failure: an admitted handler on which \<^verbatim>\<open>open\<close> is called and \<^verbatim>\<open>connect\<close> raises. \<^verbatim>\<open>open\<close>
  lets the exception through to the transport; it neither catches it nor disconnects.
  The calls made on the relay handle are the one \<^verbatim>\<open>connect\<close>: no \<^verbatim>\<open>disconnect\<close>, where the
  claim says exactly one, and the handler still holds the relay handle.
\<close>

theorem failed_open_no_disconnect:
  "(let h = \<lparr>request = \<lparr>current_user = Some ''alice'', arguments = [], headers = []\<rparr>,
             kernel_id = ''k1'',
             connection = Some \<lparr>parent = (), kernel_ws_protocol = None, session = ''s0'',
                                 has_prepare = False\<rparr>,
             effects = []\<rparr>
    in fst (open_ws (Some (ExternalError ''connect failed'')) h)
         = Some (ExternalError ''connect failed'')
     \<and> effects (snd (open_ws (Some (ExternalError ''connect failed'')) h))
         = [LogInfo ''Connecting to kernel k1.'', Connect]
     \<and> relay_calls (run json_loads json_dumps h [Open (Some (ExternalError ''connect failed''))])
         = [Connect]
     \<and> count_list
           (effects (run json_loads json_dumps h [Open (Some (ExternalError ''connect failed''))]))
           Disconnect = 0
     \<and> connection (run json_loads json_dumps h [Open (Some (ExternalError ''connect failed''))])
         = Some \<lparr>parent = (), kernel_ws_protocol = None, session = ''s0'',
                  has_prepare = False\<rparr>)"
  by (simp add: Let_def dispatch_def open_ws_def emit_def relay_calls_def)

text \<open>
  Claim C8, amended. On an admitted connection the only \<^verbatim>\<open>disconnect\<close> call is the one of
  \<^verbatim>\<open>on_close\<close>. In every sequence of callbacks, as long as no \<^verbatim>\<open>on_close\<close> has arrived no
  \<^verbatim>\<open>disconnect\<close> is made and the handler keeps its relay handle, also after an \<^verbatim>\<open>open\<close>
  whose \<^verbatim>\<open>connect\<close> failed. The first \<^verbatim>\<open>on_close\<close> makes exactly one \<^verbatim>\<open>disconnect\<close> call,
  whatever came before it; from then on the handler holds no relay handle and no later
  callback calls \<^verbatim>\<open>connect\<close>, \<^verbatim>\<open>handle_incoming_message\<close> or \<^verbatim>\<open>disconnect\<close> again, so
  \<open>Closed\<close> is never left. A closure is thus followed by exactly one \<^verbatim>\<open>disconnect\<close> when
  it reaches the handler as \<^verbatim>\<open>on_close\<close>, and by none when it does not.
\<close>

theorem disconnect_only_on_close:
  assumes "connection h = Some rc" and "OnClose \<notin> set cbs"
  shows "connection (run loads dumps h cbs) = Some rc
       \<and> count_list (effects (run loads dumps h cbs)) Disconnect
           = count_list (effects h) Disconnect
       \<and> relay_calls (run loads dumps h (cbs @ OnClose # later))
           = relay_calls (run loads dumps h cbs) @ [Disconnect]
       \<and> count_list (effects (run loads dumps h (cbs @ OnClose # later))) Disconnect
           = count_list (effects h) Disconnect + 1
       \<and> connection (run loads dumps h (cbs @ OnClose # later)) = None"
proof -
  let ?h1 = "run loads dumps h cbs"
  let ?h2 = "dispatch loads dumps ?h1 OnClose"
  from run_before_close [OF assms]
  have c1: "connection ?h1 = Some rc"
    and n1: "count_list (effects ?h1) Disconnect = count_list (effects h) Disconnect"
    by simp_all
  from c1 have c2: "connection ?h2 = None"
    and r2: "relay_calls ?h2 = relay_calls ?h1 @ [Disconnect]"
    by (simp_all add: dispatch_def on_close_def emit_def relay_calls_def)
  have split: "run loads dumps h (cbs @ OnClose # later) = run loads dumps ?h2 later"
    by (simp add: run_append)
  from run_closed [OF c2]
  have c3: "connection (run loads dumps ?h2 later) = None"
    and r3: "relay_calls (run loads dumps ?h2 later) = relay_calls ?h2"
    by simp_all
  have "count_list (effects (run loads dumps ?h2 later)) Disconnect
          = count_list (relay_calls (run loads dumps ?h2 later)) Disconnect"
    by (simp add: relay_calls_def count_list_filter_relay)
  also have "\<dots> = count_list (relay_calls ?h1 @ [Disconnect]) Disconnect"
    by (simp add: r3 r2)
  also have "\<dots> = count_list (effects ?h1) Disconnect + 1"
    by (simp add: relay_calls_def count_list_filter_relay)
  finally have n3: "count_list (effects (run loads dumps ?h2 later)) Disconnect
                      = count_list (effects h) Disconnect + 1"
    by (simp add: n1)
  show ?thesis
    unfolding split using c1 n1 r3 r2 n3 c3 by simp
qed

text \<open>A connection that is opened, receives one binary frame and is closed by the
  client.\<close>

theorem disconnect_only_on_close_witness:
  "(let h = \<lparr>request = \<lparr>current_user = Some ''alice'', arguments = [], headers = []\<rparr>,
             kernel_id = ''k1'',
             connection = Some \<lparr>parent = (), kernel_ws_protocol = None, session = ''s0'',
                                 has_prepare = False\<rparr>,
             effects = []\<rparr>
    in relay_calls (run json_loads json_dumps h [Open None, OnMessage (Binary [1])])
         = [Connect, HandleIncoming (Binary [1])]
     \<and> connection (run json_loads json_dumps h [Open None, OnMessage (Binary [1])])
         = Some \<lparr>parent = (), kernel_ws_protocol = None, session = ''s0'',
                  has_prepare = False\<rparr>
     \<and> relay_calls (run json_loads json_dumps h
          ([Open None, OnMessage (Binary [1])] @ OnClose # []))
         = [Connect, HandleIncoming (Binary [1]), Disconnect]
     \<and> count_list (effects (run json_loads json_dumps h
          ([Open None, OnMessage (Binary [1])] @ OnClose # []))) Disconnect = 1
     \<and> connection (run json_loads json_dumps h
          ([Open None, OnMessage (Binary [1])] @ OnClose # [])) = None)"
proof -
  let ?rc = "\<lparr>parent = (), kernel_ws_protocol = None, session = ''s0'', has_prepare = False\<rparr>"
  let ?h = "\<lparr>request = \<lparr>current_user = Some ''alice'', arguments = [], headers = []\<rparr>,
             kernel_id = ''k1'', connection = Some ?rc, effects = []\<rparr>"
  have c: "connection ?h = Some ?rc"
    by simp
  have g: "relay_calls (run json_loads json_dumps ?h [Open None, OnMessage (Binary [1])])
             = [Connect, HandleIncoming (Binary [1])]"
    by (simp add: dispatch_def open_ws_def on_message_def on_message_rewrite_def emit_def
        relay_calls_def Let_def)
  have b: "OnClose \<notin> set [Open None, OnMessage (Binary [1])]"
    by simp
  show ?thesis
    unfolding Let_def
    using disconnect_only_on_close [OF c b, of json_loads json_dumps "[]"] g
    by simp
qed

end
